theory Spec2Isabelle
  imports Main
begin

section \<open>The morphism algebra of semdag (src/index.ts)\<close>

subsection \<open>Data model\<close>

text \<open>
  Objects of the program are compared by reference in one place (\<open>compose\<close>), so the
  two kinds of object whose identity matters are modelled by their addresses:
  \<^item> a \<open>schema_ref\<close> is the address of a Zod schema object (\<open>ZodType\<close>); the module
    never calls into the schema, it only compares two of them with \<open>!==\<close>;
  \<^item> a \<open>type_ref\<close> is the address of a \<open>Type\<close> descriptor object. A store maps every
    address to the descriptor found there, so two morphisms that hold the same
    \<open>type_ref\<close> share one descriptor, and two different \<open>type_ref\<close>s are two
    distinct descriptor objects, whatever their fields are.
  Nothing in the module mutates an object after its construction, so the store is only
  read.

  The type parameter \<open>'v\<close> is the universe of run-time values (\<open>Serializable\<close>); the
  TypeScript parameters \<open>A\<close>, \<open>B\<close>, \<open>C\<close> are erased at run time and the intermediate
  type of a composition is \<open>any\<close> in the source.

  The caller's functions \<open>map\<close>, \<open>inverse\<close> and \<open>equals\<close> are JavaScript functions: a
  call of one either returns a value or throws (the tests pass inverses that throw, such
  as \<open>UserSchema.parse(JSON.parse(s))\<close>). Each is a function into \<open>exn + _\<close>, where
  \<open>Inl\<close> is a throw. The module has no \<open>try\<close>: a throw of a caller's function leaves
  the function of the module that called it.
\<close>

text \<open>A thrown JavaScript \<open>Error\<close>, with its message.\<close>

datatype exn = Error string

type_synonym schema_ref = nat
type_synonym type_ref = nat

record 'v Type =
  name :: string
  schema :: schema_ref
  equals :: "'v \<Rightarrow> 'v \<Rightarrow> exn + bool"

type_synonym 'v type_store = "type_ref \<Rightarrow> 'v Type"

text \<open>
  The union \<open>Morphism<A, B>\<close> with its three interfaces. Each constructor carries the
  fields of its interface in the order of the source; the \<open>kind\<close> tag is the
  constructor. The fields \<open>map\<close> and \<open>inverse\<close> are named \<open>map_fn\<close> and
  \<open>inverse_fn\<close>.
\<close>

datatype 'v Morphism =
    BasicMorphism (map_fn: "'v \<Rightarrow> exn + 'v") (source: type_ref) (target: type_ref)
  | ReversibleMorphism (map_fn: "'v \<Rightarrow> exn + 'v") (source: type_ref) (target: type_ref)
      (inverse_fn: "'v \<Rightarrow> exn + 'v")
  | ComposedMorphism (map_fn: "'v \<Rightarrow> exn + 'v") (source: type_ref) (target: type_ref)
      (first: "'v Morphism") (second: "'v Morphism")

datatype Kind = basic | reversible | composed

fun kind :: "'v Morphism \<Rightarrow> Kind" where
  "kind (BasicMorphism mp s t) = basic"
| "kind (ReversibleMorphism mp s t bw) = reversible"
| "kind (ComposedMorphism mp s t f g) = composed"

text \<open>\<open>Result<T, E>\<close>: \<open>{success: true, value}\<close> or \<open>{success: false, error}\<close>.\<close>

datatype ('t, 'e) Result = Success (val: 't) | Failure (error: 'e)

subsection \<open>Constructors\<close>

definition reversibleMorphism ::
  "type_ref \<Rightarrow> type_ref \<Rightarrow> ('v \<Rightarrow> exn + 'v) \<Rightarrow> ('v \<Rightarrow> exn + 'v) \<Rightarrow> 'v Morphism"
  where
  "reversibleMorphism src tgt forward backward = ReversibleMorphism forward src tgt backward"

definition morphism :: "type_ref \<Rightarrow> type_ref \<Rightarrow> ('v \<Rightarrow> exn + 'v) \<Rightarrow> 'v Morphism" where
  "morphism src tgt forward = BasicMorphism forward src tgt"

subsection \<open>Composition\<close>

text \<open>
  The message of the thrown error is a template literal that spans three lines; the
  second and third line are indented by twelve blanks in the source.
\<close>

definition compose_message :: "string \<Rightarrow> string \<Rightarrow> string" where
  "compose_message first_target_name second_source_name =
     ''Cannot compose morphisms: Incompatible types.'' @ [CHR 0x0A] @
     ''            First morphism target type: '' @ first_target_name @ [CHR 0x0A] @
     ''            Second morphism source type: '' @ second_source_name"

text \<open>
  \<open>compose\<close> throws when \<open>first.target.schema !== second.source.schema\<close>: the two
  schema objects are compared by reference. A throw is the left summand. The \<open>map\<close>
  of the result calls \<open>first.map\<close>, then \<open>second.map\<close> on what it returned.
\<close>

definition compose :: "'v type_store \<Rightarrow> 'v Morphism \<Rightarrow> 'v Morphism \<Rightarrow> exn + 'v Morphism" where
  "compose h fst_m snd_m =
     (if schema (h (target fst_m)) \<noteq> schema (h (source snd_m))
      then Inl (Error (compose_message (name (h (target fst_m))) (name (h (source snd_m)))))
      else Inr (ComposedMorphism
                  (\<lambda>a. case map_fn fst_m a of Inl e \<Rightarrow> Inl e | Inr b \<Rightarrow> map_fn snd_m b)
                  (source fst_m) (target snd_m) fst_m snd_m))"

subsection \<open>Reversibility\<close>

definition isReversible :: "'v Morphism \<Rightarrow> bool" where
  "isReversible m = (kind m = reversible)"

text \<open>\<open>inverseOf\<close> returns the stored function or \<open>undefined\<close> (\<open>None\<close>).\<close>

definition inverseOf :: "'v Morphism \<Rightarrow> ('v \<Rightarrow> exn + 'v) option" where
  "inverseOf m = (if kind m = reversible then Some (inverse_fn m) else None)"

definition checkReversibility :: "'v type_store \<Rightarrow> 'v Morphism \<Rightarrow> 'v \<Rightarrow> exn + bool" where
  "checkReversibility h m testValue =
     (case inverseOf m of
        None \<Rightarrow> Inr False
      | Some inverse_f \<Rightarrow>
          (case map_fn m testValue of
             Inl e \<Rightarrow> Inl e
           | Inr forward \<Rightarrow>
               (case inverse_f forward of
                  Inl e \<Rightarrow> Inl e
                | Inr backward \<Rightarrow> equals (h (source m)) testValue backward)))"

subsection \<open>Reversal\<close>

definition not_reversible_message :: "string \<Rightarrow> string \<Rightarrow> string" where
  "not_reversible_message source_name target_name =
     ''Morphism '' @ [CHR 0x22] @ source_name @ '' -> '' @ target_name @ [CHR 0x22] @
     '' is not reversible''"

definition within_composition_message :: "string \<Rightarrow> string \<Rightarrow> string" where
  "within_composition_message source_name target_name =
     ''Morphism '' @ [CHR 0x22] @ source_name @ '' -> '' @ target_name @ [CHR 0x22] @
     '' within composition is not reversible''"

text \<open>
  \<open>_reverseComposed\<close> takes a composed morphism; its two arguments here are the
  fields \<open>m.first\<close> and \<open>m.second\<close> it reads. The second component is tested first.
  When both tests pass, the inverse of the second component is called, then the
  inverse of the first on what it returned; a throw of either leaves the function.
\<close>

definition reverseComposed ::
  "'v type_store \<Rightarrow> 'v Morphism \<Rightarrow> 'v \<Rightarrow> exn + ('v, string) Result" where
  "reverseComposed h m v =
     (if \<not> isReversible (second m)
      then Inr (Failure (within_composition_message
                           (name (h (source (second m)))) (name (h (target (second m))))))
      else if \<not> isReversible (first m)
      then Inr (Failure (within_composition_message
                           (name (h (source (first m)))) (name (h (target (first m))))))
      else (case inverse_fn (second m) v of
              Inl e \<Rightarrow> Inl e
            | Inr secondReversed \<Rightarrow>
                (case inverse_fn (first m) secondReversed of
                   Inl e \<Rightarrow> Inl e
                 | Inr firstReversed \<Rightarrow> Inr (Success firstReversed))))"

text \<open>
  \<open>reverse\<close> switches on \<open>m.kind\<close>. Its \<open>default\<close> branch (\<open>Unknown morphism kind\<close>)
  is taken by no value of the union type and has no counterpart here. The
  \<open>reversible\<close> branch calls \<open>m.inverse(value)\<close> while it builds the result.
\<close>

definition reverse ::
  "'v type_store \<Rightarrow> 'v Morphism \<Rightarrow> 'v \<Rightarrow> exn + ('v, string) Result" where
  "reverse h m v =
     (case kind m of
        reversible \<Rightarrow>
          (case inverse_fn m v of Inl e \<Rightarrow> Inl e | Inr x \<Rightarrow> Inr (Success x))
      | composed \<Rightarrow> reverseComposed h m v
      | basic \<Rightarrow>
          Inr (Failure (not_reversible_message (name (h (source m))) (name (h (target m))))))"

subsection \<open>Example descriptors and morphisms\<close>

text \<open>
  A store over integer values with four descriptors. Descriptor 1 is a second object
  built around the schema object of descriptor 0 (as \<open>{...NumberType}\<close> is); descriptor
  2 is built independently, with a schema object of its own (a second call of
  \<open>createNumberType()\<close> in the tests); every other address holds \<open>Natural\<close>.
\<close>

definition exampleTypes :: "int type_store" where
  "exampleTypes r =
     (if r = 0 then \<lparr>name = ''Number'', schema = 100, equals = (\<lambda>a b. Inr (a = b))\<rparr>
      else if r = 1 then \<lparr>name = ''Number'', schema = 100, equals = (\<lambda>a b. Inr (a = b))\<rparr>
      else if r = 2 then \<lparr>name = ''Number'', schema = 102, equals = (\<lambda>a b. Inr (a = b))\<rparr>
      else \<lparr>name = ''Natural'', schema = 103, equals = (\<lambda>a b. Inr (a = b))\<rparr>)"

definition addOne :: "type_ref \<Rightarrow> int Morphism" where
  "addOne r = reversibleMorphism r r (\<lambda>n. Inr (n + 1)) (\<lambda>n. Inr (n - 1))"

definition negate :: "type_ref \<Rightarrow> int Morphism" where
  "negate r = reversibleMorphism r r (\<lambda>n. Inr (- n)) (\<lambda>n. Inr (- n))"

definition shiftToNatural :: "int Morphism" where
  "shiftToNatural = reversibleMorphism 0 3 (\<lambda>n. Inr (n + 1000)) (\<lambda>n. Inr (n - 1000))"

definition toAbsoluteValue :: "int Morphism" where
  "toAbsoluteValue = morphism 0 3 (\<lambda>n. Inr (abs n))"

definition double :: "int Morphism" where
  "double = morphism 3 3 (\<lambda>n. Inr (2 * n))"

text \<open>
  A reversible morphism whose inverse validates its argument and throws on a value that
  is not an image of \<open>map\<close>, as the inverse of \<open>numToString\<close> in the tests does
  (\<open>if (!result.success) throw new Error(result.error.message)\<close>).
\<close>

definition twice :: "type_ref \<Rightarrow> int Morphism" where
  "twice r = reversibleMorphism r r (\<lambda>n. Inr (2 * n))
               (\<lambda>n. if n mod 2 = 0 then Inr (n div 2) else Inl (Error ''Expected an even number''))"

text \<open>
  The value of \<open>compose(compose(addOne, shiftToNatural), negate)\<close>: a composition whose
  first component is itself a composition of two reversible morphisms.
\<close>

definition nested :: "int Morphism" where
  "nested = ComposedMorphism (\<lambda>a. Inr (- (a + 1 + 1000))) 0 3
              (ComposedMorphism (\<lambda>a. Inr (a + 1 + 1000)) 0 3 (addOne 0) shiftToNatural)
              (negate 3)"

lemmas example_defs =
  exampleTypes_def addOne_def negate_def shiftToNatural_def toAbsoluteValue_def double_def
  twice_def reversibleMorphism_def morphism_def

section \<open>Properties\<close>

subsection \<open>Shared facts\<close>

lemma compose_Inr_iff:
  "compose h f g = Inr m \<longleftrightarrow>
     schema (h (target f)) = schema (h (source g)) \<and>
     m = ComposedMorphism (\<lambda>a. case map_fn f a of Inl e \<Rightarrow> Inl e | Inr b \<Rightarrow> map_fn g b)
           (source f) (target g) f g"
  by (auto simp: compose_def)

lemma kind_composed_cases:
  "kind m = composed \<longleftrightarrow> (\<exists>mp s t f g. m = ComposedMorphism mp s t f g)"
  by (cases m) simp_all

lemma kind_reversible_cases:
  "kind m = reversible \<longleftrightarrow> (\<exists>mp s t bw. m = ReversibleMorphism mp s t bw)"
  by (cases m) simp_all

lemma reverse_composed: "kind m = composed \<Longrightarrow> reverse h m v = reverseComposed h m v"
  by (simp add: reverse_def)

subsection \<open>Composition\<close>

text \<open>
  C1. The claim: \<open>compose(f, g)\<close> throws if and only if \<open>f.target\<close> and \<open>g.source\<close>
  are not the same \<open>Type\<close> object, so it throws for any two distinct descriptors. The
  source compares \<open>first.target.schema\<close> with \<open>second.source.schema\<close>: two distinct
  descriptors that hold one schema object compose without an error. Here descriptors 0
  and 1 are distinct objects with equal fields, and the composition returns.
\<close>

theorem compose_distinct_descriptors_counterexample:
  "target (addOne 0) \<noteq> source (addOne 1) \<and>
   exampleTypes (target (addOne 0)) = exampleTypes (source (addOne 1)) \<and>
   \<not> isl (compose exampleTypes (addOne 0) (addOne 1))"
  by (simp add: compose_def example_defs)

text \<open>
  C1, amended. \<open>compose(f, g)\<close> throws if and only if \<open>f.target.schema\<close> and
  \<open>g.source.schema\<close> are not the same schema object; the error's message carries
  \<open>f.target.name\<close> and \<open>g.source.name\<close>. So it never throws when \<open>f.target\<close> and
  \<open>g.source\<close> are one descriptor, and for two descriptors it throws exactly when
  their schema objects differ.
\<close>

theorem compose_throws_iff_schemas_differ:
  "(isl (compose h f g) \<longleftrightarrow> schema (h (target f)) \<noteq> schema (h (source g))) \<and>
   (isl (compose h f g) \<longrightarrow>
      compose h f g =
        Inl (Error (''Cannot compose morphisms: Incompatible types.'' @ [CHR 0x0A] @
                    ''            First morphism target type: '' @ name (h (target f)) @
                    [CHR 0x0A] @
                    ''            Second morphism source type: '' @ name (h (source g))))) \<and>
   (target f = source g \<longrightarrow> \<not> isl (compose h f g))"
  by (simp add: compose_def compose_message_def)

theorem compose_throws_iff_schemas_differ_witness:
  "isl (compose exampleTypes (addOne 0) (addOne 2)) \<and>
   compose exampleTypes (addOne 0) (addOne 2) =
     Inl (Error (''Cannot compose morphisms: Incompatible types.'' @ [CHR 0x0A] @
                 ''            First morphism target type: Number'' @ [CHR 0x0A] @
                 ''            Second morphism source type: Number'')) \<and>
   target (addOne 0) = source (addOne 0) \<and>
   \<not> isl (compose exampleTypes (addOne 0) (addOne 0))"
  using compose_throws_iff_schemas_differ [of exampleTypes "addOne 0" "addOne 2"]
    compose_throws_iff_schemas_differ [of exampleTypes "addOne 0" "addOne 0"]
  by (simp add: example_defs)

text \<open>
  C3. Whenever the test of \<open>compose\<close> passes (in particular when \<open>f.target\<close> and
  \<open>g.source\<close> are one descriptor), \<open>compose(f, g)\<close> returns a composed morphism \<open>m\<close>
  with \<open>m.map(a) = g.map(f.map(a))\<close>, \<open>m.source = f.source\<close>,
  \<open>m.target = g.target\<close>, \<open>m.first = f\<close> and \<open>m.second = g\<close>. The equation of the
  maps is one of calls: \<open>m.map(a)\<close> is the outcome of \<open>g.map\<close> on what \<open>f.map(a)\<close>
  returns, and the throw of \<open>f.map(a)\<close> when it throws.
\<close>

theorem compose_returns_composition:
  assumes "schema (h (target f)) = schema (h (source g))"
  shows "\<exists>m. compose h f g = Inr m \<and> kind m = composed \<and>
              map_fn m a = (case map_fn f a of Inl e \<Rightarrow> Inl e | Inr b \<Rightarrow> map_fn g b) \<and>
              source m = source f \<and> target m = target g \<and>
              first m = f \<and> second m = g"
  using assms by (simp add: compose_def)

theorem compose_returns_composition_witness:
  "schema (exampleTypes (target (addOne 0))) = schema (exampleTypes (source (negate 0))) \<and>
   map_fn (addOne 0) 5 = Inr 6 \<and> map_fn (negate 0) 6 = Inr (- 6) \<and>
   (\<exists>m. compose exampleTypes (addOne 0) (negate 0) = Inr m \<and> kind m = composed \<and>
         map_fn m 5 = Inr (- 6) \<and> source m = 0 \<and> target m = 0 \<and>
         first m = addOne 0 \<and> second m = negate 0)"
proof -
  have same: "schema (exampleTypes (target (addOne 0))) =
              schema (exampleTypes (source (negate 0)))"
    by (simp add: example_defs)
  have maps: "map_fn (addOne 0) 5 = Inr 6" "map_fn (negate 0) 6 = Inr (- 6)"
    by (simp_all add: example_defs)
  from compose_returns_composition [OF same, of 5] have
    "\<exists>m. compose exampleTypes (addOne 0) (negate 0) = Inr m \<and> kind m = composed \<and>
         map_fn m 5 = Inr (- 6) \<and> source m = 0 \<and> target m = 0 \<and>
         first m = addOne 0 \<and> second m = negate 0"
    by (simp add: addOne_def negate_def reversibleMorphism_def)
  with same maps show ?thesis
    by blast
qed

subsection \<open>Reversibility\<close>

text \<open>
  C6. \<open>isReversible(m)\<close> is true if and only if the variant tag of \<open>m\<close> is
  \<open>reversible\<close>; whatever \<open>compose\<close> returns is not reported as reversible, also when
  both components are reversible.
\<close>

theorem isReversible_iff_kind:
  "(isReversible m \<longleftrightarrow> kind m = reversible) \<and>
   (isReversible m \<longleftrightarrow> (\<exists>mp s t bw. m = ReversibleMorphism mp s t bw)) \<and>
   (compose h f g = Inr c \<longrightarrow> \<not> isReversible c)"
  by (auto simp: isReversible_def kind_reversible_cases compose_Inr_iff)

theorem isReversible_iff_kind_witness:
  "compose exampleTypes (addOne 0) (negate 0) =
     Inr (ComposedMorphism (\<lambda>a. Inr (- (a + 1))) 0 0 (addOne 0) (negate 0)) \<and>
   isReversible (addOne 0) \<and> isReversible (negate 0) \<and>
   \<not> isReversible (ComposedMorphism (\<lambda>a. Inr (- (a + 1))) 0 0 (addOne 0) (negate 0))"
proof -
  have c: "compose exampleTypes (addOne 0) (negate 0) =
             Inr (ComposedMorphism (\<lambda>a. Inr (- (a + 1))) 0 0 (addOne 0) (negate 0))"
    by (simp add: compose_def example_defs)
  from isReversible_iff_kind [of _ exampleTypes "addOne 0" "negate 0"
      "ComposedMorphism (\<lambda>a. Inr (- (a + 1))) 0 0 (addOne 0) (negate 0)"] c
  have "\<not> isReversible (ComposedMorphism (\<lambda>a. Inr (- (a + 1))) 0 0 (addOne 0) (negate 0))"
    by blast
  with c show ?thesis
    by (simp add: isReversible_def example_defs)
qed

text \<open>
  C7. \<open>inverseOf(m)\<close> is the stored inverse function for the reversible variant and
  \<open>undefined\<close> for the basic and the composed variant, whatever the components of the
  composition are.
\<close>

theorem inverseOf_cases:
  "inverseOf (reversibleMorphism src tgt fw bw) = Some bw \<and>
   inverseOf (ReversibleMorphism mp s t bw) = Some bw \<and>
   inverseOf (BasicMorphism mp s t) = None \<and>
   inverseOf (ComposedMorphism mp s t f g) = None"
  by (simp add: inverseOf_def reversibleMorphism_def)

text \<open>
  C5. \<open>checkReversibility(m, v)\<close> is \<open>m.source.equals(v, m.inverse(m.map(v)))\<close> for the
  reversible variant: the outcome of \<open>equals\<close> on \<open>v\<close> and what the inverse returns on
  what \<open>map\<close> returns on \<open>v\<close> (and the throw of the first of the three calls that
  throws). It returns \<open>false\<close> for the basic and the composed variant, whatever the
  components of the composition are.
\<close>

theorem checkReversibility_cases:
  "checkReversibility h (ReversibleMorphism mp s t bw) v =
     (case mp v of
        Inl e \<Rightarrow> Inl e
      | Inr forward \<Rightarrow>
          (case bw forward of Inl e \<Rightarrow> Inl e | Inr backward \<Rightarrow> equals (h s) v backward)) \<and>
   checkReversibility h (BasicMorphism mp s t) v = Inr False \<and>
   checkReversibility h (ComposedMorphism mp s t f g) v = Inr False"
  by (simp add: checkReversibility_def inverseOf_def split: sum.split)

subsection \<open>Reversal\<close>

text \<open>
  C8. The claim: for the reversible variant, \<open>reverse(m, v)\<close> always succeeds. The
  source calls \<open>m.inverse(value)\<close> unguarded, so \<open>reverse\<close> throws what the inverse
  throws: here the inverse of \<open>twice\<close> rejects the odd number 7.
\<close>

theorem reverse_reversible_counterexample:
  "kind (twice 0) = reversible \<and>
   reverse exampleTypes (twice 0) 7 = Inl (Error ''Expected an even number'')"
  by (simp add: reverse_def example_defs)

text \<open>
  C8, amended. For the reversible variant and a value \<open>v\<close> on which \<open>m.inverse\<close>
  returns \<open>x\<close>, \<open>reverse(m, v)\<close> returns \<open>{success: true, value: x}\<close>.
\<close>

theorem reverse_reversible:
  assumes "bw v = Inr x"
  shows "reverse h (ReversibleMorphism mp s t bw) v = Inr (Success x)"
  using assms by (simp add: reverse_def)

theorem reverse_reversible_witness:
  "inverse_fn (addOne 0) 6 = Inr 5 \<and> reverse exampleTypes (addOne 0) 6 = Inr (Success 5)"
proof -
  have i: "(\<lambda>n::int. Inr (n - 1) :: exn + int) 6 = Inr 5"
    by simp
  from reverse_reversible [of "\<lambda>n. Inr (n - 1)" 6 5 exampleTypes "\<lambda>n. Inr (n + 1)" 0 0, OF i]
  show ?thesis
    by (simp add: example_defs)
qed

text \<open>
  C9. For the basic variant, \<open>reverse(m, v)\<close> returns a failure whose message is
  \<open>Morphism "S -> T" is not reversible\<close>, with the names of \<open>m.source\<close> and
  \<open>m.target\<close>. It returns (\<open>Inr\<close>) and does not throw: the branch calls no function of
  the caller.
\<close>

theorem reverse_basic:
  "reverse h (BasicMorphism mp s t) v =
     Inr (Failure (''Morphism \"'' @ name (h s) @ '' -> '' @ name (h t) @
                   ''\" is not reversible''))"
  by (simp add: reverse_def not_reversible_message_def)

text \<open>
  C2. The claim: when \<open>m = compose(f, g)\<close> and both \<open>f\<close> and \<open>g\<close> are of the
  reversible variant, \<open>reverse(m, v)\<close> succeeds for every value \<open>v\<close>. The source
  calls both inverses unguarded, so \<open>reverse\<close> throws what an inverse throws: here
  the inverse of the second component \<open>twice\<close> rejects the odd number 7.
\<close>

theorem reverse_compose_reversibles_counterexample:
  "compose exampleTypes (addOne 0) (twice 0) =
     Inr (ComposedMorphism (\<lambda>a. Inr (2 * (a + 1))) 0 0 (addOne 0) (twice 0)) \<and>
   kind (addOne 0) = reversible \<and> kind (twice 0) = reversible \<and>
   reverse exampleTypes
     (ComposedMorphism (\<lambda>a. Inr (2 * (a + 1))) 0 0 (addOne 0) (twice 0)) 7 =
     Inl (Error ''Expected an even number'')"
  by (simp add: compose_def reverse_def reverseComposed_def isReversible_def example_defs)

text \<open>
  C2, amended. When \<open>m = compose(f, g)\<close>, both \<open>f\<close> and \<open>g\<close> are of the reversible
  variant, \<open>g.inverse(v)\<close> returns \<open>w\<close> and \<open>f.inverse(w)\<close> returns \<open>x\<close>, then
  \<open>reverse(m, v)\<close> returns \<open>{success: true, value: x}\<close>: the inverse of the second
  component is applied first, the inverse of the first component to its result.
\<close>

theorem reverse_compose_reversibles:
  assumes "compose h f g = Inr m" and "kind f = reversible" and "kind g = reversible"
    and "inverse_fn g v = Inr w" and "inverse_fn f w = Inr x"
  shows "reverse h m v = Inr (Success x)"
  using assms by (auto simp: compose_Inr_iff reverse_def reverseComposed_def isReversible_def)

theorem reverse_compose_reversibles_witness:
  "compose exampleTypes (addOne 0) (negate 0) =
     Inr (ComposedMorphism (\<lambda>a. Inr (- (a + 1))) 0 0 (addOne 0) (negate 0)) \<and>
   kind (addOne 0) = reversible \<and> kind (negate 0) = reversible \<and>
   inverse_fn (negate 0) (- 6) = Inr 6 \<and> inverse_fn (addOne 0) 6 = Inr 5 \<and>
   reverse exampleTypes
     (ComposedMorphism (\<lambda>a. Inr (- (a + 1))) 0 0 (addOne 0) (negate 0)) (- 6) =
     Inr (Success 5)"
proof -
  have c: "compose exampleTypes (addOne 0) (negate 0) =
             Inr (ComposedMorphism (\<lambda>a. Inr (- (a + 1))) 0 0 (addOne 0) (negate 0))"
    by (simp add: compose_def example_defs)
  have kf: "kind (addOne 0) = reversible" and kg: "kind (negate 0) = reversible"
    by (simp_all add: example_defs)
  have ig: "inverse_fn (negate 0) (- 6) = Inr 6" and "if": "inverse_fn (addOne 0) 6 = Inr 5"
    by (simp_all add: example_defs)
  from reverse_compose_reversibles [OF c kf kg ig "if"] c kf kg ig "if" show ?thesis
    by simp
qed

text \<open>
  C4. When at least one of the two components of a composed morphism is not of the
  reversible variant, \<open>reverse\<close> returns a failure whose message is
  \<open>Morphism "S -> T" within composition is not reversible\<close>, where \<open>S\<close> and \<open>T\<close> are
  the names of the source and the target of a component that is not of the reversible
  variant. Only the tag of the component is read: a component that is itself a
  composition of reversible morphisms is named as not reversible.
\<close>

theorem reverse_composed_not_reversible:
  assumes "kind m = composed"
    and "\<not> isReversible (first m) \<or> \<not> isReversible (second m)"
  shows "\<exists>c. (c = first m \<or> c = second m) \<and> \<not> isReversible c \<and>
             reverse h m v =
               Inr (Failure (''Morphism \"'' @ name (h (source c)) @ '' -> '' @
                             name (h (target c)) @
                             ''\" within composition is not reversible''))"
proof (cases "isReversible (second m)")
  case True
  with assms(2) have "\<not> isReversible (first m)" by simp
  with True assms(1) show ?thesis
    by (intro exI [of _ "first m"])
      (simp add: reverse_composed reverseComposed_def within_composition_message_def)
next
  case False
  with assms(1) show ?thesis
    by (intro exI [of _ "second m"])
      (simp add: reverse_composed reverseComposed_def within_composition_message_def)
qed

theorem reverse_composed_not_reversible_witness:
  "compose exampleTypes (addOne 0) shiftToNatural =
     Inr (ComposedMorphism (\<lambda>a. Inr (a + 1 + 1000)) 0 3 (addOne 0) shiftToNatural) \<and>
   compose exampleTypes
     (ComposedMorphism (\<lambda>a. Inr (a + 1 + 1000)) 0 3 (addOne 0) shiftToNatural)
     (negate 3) = Inr nested \<and>
   kind nested = composed \<and>
   \<not> isReversible (first nested) \<and> isReversible (second nested) \<and>
   reverse exampleTypes nested (- 1006) =
     Inr (Failure ''Morphism \"Number -> Natural\" within composition is not reversible'')"
proof -
  have k: "kind nested = composed"
    by (simp add: nested_def)
  have f: "\<not> isReversible (first nested)" and g: "isReversible (second nested)"
    by (simp_all add: nested_def isReversible_def example_defs)
  from f have n: "\<not> isReversible (first nested) \<or> \<not> isReversible (second nested)"
    by simp
  from reverse_composed_not_reversible [OF k n, of exampleTypes "- 1006"] k f g show ?thesis
    by (auto simp: nested_def compose_def isReversible_def example_defs)
qed

text \<open>
  C10. When the second component of a composed morphism is not of the reversible
  variant, \<open>reverse\<close> returns the failure that names the second component, whatever the
  first component is: the second component is tested first.
\<close>

theorem reverse_composed_second_first:
  assumes "kind m = composed" and "\<not> isReversible (second m)"
  shows "reverse h m v =
           Inr (Failure (''Morphism \"'' @ name (h (source (second m))) @ '' -> '' @
                         name (h (target (second m))) @
                         ''\" within composition is not reversible''))"
  using assms
  by (simp add: reverse_composed reverseComposed_def within_composition_message_def)

theorem reverse_composed_second_first_witness:
  "compose exampleTypes toAbsoluteValue double =
     Inr (ComposedMorphism (\<lambda>a. Inr (2 * abs a)) 0 3 toAbsoluteValue double) \<and>
   kind (ComposedMorphism (\<lambda>a. Inr (2 * abs a)) 0 3 toAbsoluteValue double) = composed \<and>
   \<not> isReversible toAbsoluteValue \<and> \<not> isReversible double \<and>
   reverse exampleTypes
     (ComposedMorphism (\<lambda>a. Inr (2 * abs a)) 0 3 toAbsoluteValue double) 10 =
     Inr (Failure ''Morphism \"Natural -> Natural\" within composition is not reversible'')"
proof -
  let ?m = "ComposedMorphism (\<lambda>a. Inr (2 * abs a)) 0 3 toAbsoluteValue double"
  have k: "kind ?m = composed"
    by simp
  have n: "\<not> isReversible (second ?m)"
    by (simp add: isReversible_def example_defs)
  from reverse_composed_second_first [OF k n, of exampleTypes 10] show ?thesis
    by (simp add: compose_def isReversible_def example_defs)
qed

end
